theory Spec2Isabelle
  imports Complex_Main "HOL-Library.Sublist"
begin

section \<open>Data model\<close>

text \<open>
  The exercises handled by \<^verbatim>\<open>ExerciseDataFetcher\<close> are whatever \<^verbatim>\<open>response.json()\<close>
  decoded: JSON values. A Python \<^verbatim>\<open>dict\<close> is an association list read with
  \<open>map_of\<close>, a Python \<^verbatim>\<open>list\<close> a HOL list, \<^verbatim>\<open>None\<close> is \<open>JNull\<close>.
\<close>

datatype json =
    JNull
  | JBool bool
  | JInt int
  | JFloat real
  | JStr string
  | JArr "json list"
  | JObj "(string \<times> json) list"

type_synonym exercise = "(string \<times> json) list"

text \<open>The exceptions that the modelled methods can raise.\<close>

datatype error =
    TransportError
  | HTTPStatusError nat
  | JSONDecodeError
  | TypeError
  | AttributeError
  | IOError

text \<open>\<^verbatim>\<open>d.get(key, default)\<close>; \<^verbatim>\<open>d.get(key)\<close> is \<open>dict_get d key JNull\<close>.\<close>

definition dict_get :: "exercise \<Rightarrow> string \<Rightarrow> json \<Rightarrow> json" where
  "dict_get d key dflt = (case map_of d key of None \<Rightarrow> dflt | Some v \<Rightarrow> v)"

text \<open>
  \<^verbatim>\<open>value == s\<close> for a decoded JSON value and a \<^verbatim>\<open>str\<close>: a string is equal to
  strings only.
\<close>

definition py_eq_str :: "json \<Rightarrow> string \<Rightarrow> bool" where
  "py_eq_str v s = (v = JStr s)"

text \<open>
  \<^verbatim>\<open>s in container\<close> for a \<^verbatim>\<open>str\<close> on the left: membership in a list, substring of
  a string, key of a dict; \<^verbatim>\<open>None\<close>, booleans and numbers are not iterable.
\<close>

fun py_in :: "string \<Rightarrow> json \<Rightarrow> error + bool" where
  "py_in s (JArr xs) = Inr (JStr s \<in> set xs)"
| "py_in s (JStr t) = Inr (sublist s t)"
| "py_in s (JObj kvs) = Inr (s \<in> fst ` set kvs)"
| "py_in s JNull = Inl TypeError"
| "py_in s (JBool b) = Inl TypeError"
| "py_in s (JInt i) = Inl TypeError"
| "py_in s (JFloat r) = Inl TypeError"

text \<open>Truth value of an optional string argument: \<^verbatim>\<open>None\<close> and \<^verbatim>\<open>""\<close> are false.\<close>

fun truthy :: "string option \<Rightarrow> bool" where
  "truthy None = False"
| "truthy (Some s) = (s \<noteq> [])"

text \<open>\<^verbatim>\<open>len(x)\<close>: defined on lists, strings and dicts only.\<close>

fun py_len :: "json \<Rightarrow> error + nat" where
  "py_len (JArr xs) = Inr (length xs)"
| "py_len (JStr s) = Inr (length s)"
| "py_len (JObj kvs) = Inr (length kvs)"
| "py_len JNull = Inl TypeError"
| "py_len (JBool b) = Inl TypeError"
| "py_len (JInt i) = Inl TypeError"
| "py_len (JFloat r) = Inl TypeError"

text \<open>\<^verbatim>\<open>self.output_dir / name\<close>.\<close>

definition path_join :: "string \<Rightarrow> string \<Rightarrow> string" where
  "path_join dir name = dir @ ''/'' @ name"

section \<open>\<^verbatim>\<open>filter_exercises\<close>\<close>

text \<open>
  The comprehension \<^verbatim>\<open>[e for e in filtered if muscle in e.get('primaryMuscles', [])]\<close>:
  the first element whose test raises aborts the whole comprehension.
\<close>

fun filter_muscle :: "string \<Rightarrow> exercise list \<Rightarrow> error + exercise list" where
  "filter_muscle muscle [] = Inr []"
| "filter_muscle muscle (e # es) =
     (case py_in muscle (dict_get e ''primaryMuscles'' (JArr [])) of
        Inl err \<Rightarrow> Inl err
      | Inr b \<Rightarrow>
          (case filter_muscle muscle es of
             Inl err \<Rightarrow> Inl err
           | Inr rest \<Rightarrow> Inr (if b then e # rest else rest)))"

definition filter_equipment :: "string \<Rightarrow> exercise list \<Rightarrow> exercise list" where
  "filter_equipment equipment filtered =
     [e \<leftarrow> filtered. py_eq_str (dict_get e ''equipment'' JNull) equipment]"

definition filter_level :: "string \<Rightarrow> exercise list \<Rightarrow> exercise list" where
  "filter_level level filtered =
     [e \<leftarrow> filtered. py_eq_str (dict_get e ''level'' JNull) level]"

definition filter_exercises ::
  "exercise list \<Rightarrow> string option \<Rightarrow> string option \<Rightarrow> string option \<Rightarrow> error + exercise list"
where
  "filter_exercises exercises equipment level muscle =
     (let filtered = exercises;
          filtered = (if truthy equipment then filter_equipment (the equipment) filtered
                      else filtered);
          filtered = (if truthy level then filter_level (the level) filtered else filtered)
      in if truthy muscle then filter_muscle (the muscle) filtered else Inr filtered)"

text \<open>
  The filter as the specification words it: a record satisfies a supplied criterion when
  its \<^verbatim>\<open>equipment\<close> (\<^verbatim>\<open>level\<close>) field is exactly the given string, and when the given
  muscle is an element of its \<^verbatim>\<open>primaryMuscles\<close> sequence, an absent field being the
  empty sequence. A criterion that is \<open>None\<close> is not supplied.
\<close>

definition satisfies ::
  "string option \<Rightarrow> string option \<Rightarrow> string option \<Rightarrow> exercise \<Rightarrow> bool"
where
  "satisfies equipment level muscle r =
     ((case equipment of None \<Rightarrow> True | Some q \<Rightarrow> map_of r ''equipment'' = Some (JStr q)) \<and>
      (case level of None \<Rightarrow> True | Some q \<Rightarrow> map_of r ''level'' = Some (JStr q)) \<and>
      (case muscle of None \<Rightarrow> True
       | Some m \<Rightarrow> JStr m \<in> set (case map_of r ''primaryMuscles'' of
                                   Some (JArr xs) \<Rightarrow> xs | _ \<Rightarrow> [])))"

text \<open>
  The data model gives \<^verbatim>\<open>primaryMuscles\<close> the type of a sequence: a record is typed when
  the field is absent or an array.
\<close>

definition muscles_typed :: "exercise \<Rightarrow> bool" where
  "muscles_typed r =
     (case map_of r ''primaryMuscles'' of
        None \<Rightarrow> True
      | Some (JArr xs) \<Rightarrow> True
      | Some _ \<Rightarrow> False)"

section \<open>\<^verbatim>\<open>get_exercise_by_name\<close>\<close>

text \<open>
  \<^verbatim>\<open>str.lower\<close> follows the Unicode case tables, which are no part of the program: the
  lookup takes the lower-casing function as the argument \<open>lower\<close>. \<open>ascii_lower\<close> is
  its restriction to ASCII, used to run the lookup on concrete datasets.
\<close>

definition ascii_lower_char :: "char \<Rightarrow> char" where
  "ascii_lower_char c =
     (case map_of (zip ''ABCDEFGHIJKLMNOPQRSTUVWXYZ'' ''abcdefghijklmnopqrstuvwxyz'') c of
        None \<Rightarrow> c
      | Some l \<Rightarrow> l)"

definition ascii_lower :: "string \<Rightarrow> string" where
  "ascii_lower s = map ascii_lower_char s"

text \<open>\<^verbatim>\<open>value.lower()\<close>: only strings have the method.\<close>

fun py_lower :: "(string \<Rightarrow> string) \<Rightarrow> json \<Rightarrow> error + string" where
  "py_lower lower (JStr s) = Inr (lower s)"
| "py_lower lower JNull = Inl AttributeError"
| "py_lower lower (JBool b) = Inl AttributeError"
| "py_lower lower (JInt i) = Inl AttributeError"
| "py_lower lower (JFloat r) = Inl AttributeError"
| "py_lower lower (JArr xs) = Inl AttributeError"
| "py_lower lower (JObj kvs) = Inl AttributeError"

text \<open>The loop over \<^verbatim>\<open>exercises\<close>, with \<^verbatim>\<open>name_lower = name.lower()\<close> computed before it.\<close>

fun name_loop :: "(string \<Rightarrow> string) \<Rightarrow> string \<Rightarrow> exercise list \<Rightarrow> error + exercise option" where
  "name_loop lower name_lower [] = Inr None"
| "name_loop lower name_lower (exercise # rest) =
     (case py_lower lower (dict_get exercise ''name'' (JStr [])) of
        Inl err \<Rightarrow> Inl err
      | Inr n \<Rightarrow>
          if sublist name_lower n then Inr (Some exercise)
          else name_loop lower name_lower rest)"

definition get_exercise_by_name ::
  "(string \<Rightarrow> string) \<Rightarrow> exercise list \<Rightarrow> string \<Rightarrow> error + exercise option"
where
  "get_exercise_by_name lower exercises name =
     (let name_lower = lower name in name_loop lower name_lower exercises)"

text \<open>
  The lookup as the specification words it: the name of a record is its \<^verbatim>\<open>name\<close> field,
  the empty string when the field is missing; a record matches a query when the
  lower-cased query is a substring of the lower-cased name.
\<close>

definition name_of :: "exercise \<Rightarrow> string" where
  "name_of r = (case map_of r ''name'' of Some (JStr s) \<Rightarrow> s | _ \<Rightarrow> [])"

definition name_matches :: "(string \<Rightarrow> string) \<Rightarrow> string \<Rightarrow> exercise \<Rightarrow> bool" where
  "name_matches lower q r = sublist (lower q) (lower (name_of r))"

definition name_typed :: "exercise \<Rightarrow> bool" where
  "name_typed r =
     (case map_of r ''name'' of
        None \<Rightarrow> True
      | Some (JStr s) \<Rightarrow> True
      | Some _ \<Rightarrow> False)"

text \<open>The first record of a dataset whose name is not empty.\<close>

definition first_named :: "exercise list \<Rightarrow> exercise option" where
  "first_named D = find (\<lambda>r. name_of r \<noteq> []) D"

section \<open>\<^verbatim>\<open>export_for_gymmando\<close>\<close>

definition simplified :: "exercise \<Rightarrow> exercise" where
  "simplified ex =
     [(''id'', dict_get ex ''id'' JNull),
      (''name'', dict_get ex ''name'' JNull),
      (''equipment'', dict_get ex ''equipment'' JNull),
      (''level'', dict_get ex ''level'' JNull),
      (''primaryMuscles'', dict_get ex ''primaryMuscles'' (JArr [])),
      (''secondaryMuscles'', dict_get ex ''secondaryMuscles'' (JArr [])),
      (''instructions'', dict_get ex ''instructions'' (JArr [])),
      (''category'', dict_get ex ''category'' JNull),
      (''force'', dict_get ex ''force'' JNull),
      (''mechanic'', dict_get ex ''mechanic'' JNull)]"

text \<open>The loop \<^verbatim>\<open>for ex in exercises: ... gymmando_format.append(simplified)\<close>.\<close>

fun export_loop :: "exercise list \<Rightarrow> exercise list \<Rightarrow> exercise list" where
  "export_loop gymmando_format [] = gymmando_format"
| "export_loop gymmando_format (ex # rest) =
     export_loop (gymmando_format @ [simplified ex]) rest"

text \<open>
  Writing a file is an effect of the environment: \<open>dump path value\<close> is \<open>None\<close> when
  \<^verbatim>\<open>open(path, 'w')\<close> and \<^verbatim>\<open>json.dump\<close> went through, and the error raised otherwise.
\<close>

definition export_for_gymmando ::
  "(string \<Rightarrow> json \<Rightarrow> error option) \<Rightarrow> string \<Rightarrow> exercise list \<Rightarrow> string
     \<Rightarrow> error + exercise list"
where
  "export_for_gymmando dump output_dir exercises output_file =
     (let gymmando_format = export_loop [] exercises;
          output_path = path_join output_dir output_file
      in case dump output_path (JArr (map JObj gymmando_format)) of
           Some err \<Rightarrow> Inl err
         | None \<Rightarrow> Inr gymmando_format)"

text \<open>The fixed field set of the reduced record, and its scalar and list-valued parts.\<close>

definition fixed_fields :: "string list" where
  "fixed_fields =
     [''id'', ''name'', ''equipment'', ''level'', ''primaryMuscles'', ''secondaryMuscles'',
      ''instructions'', ''category'', ''force'', ''mechanic'']"

definition scalar_fields :: "string list" where
  "scalar_fields =
     [''id'', ''name'', ''equipment'', ''level'', ''category'', ''force'', ''mechanic'']"

definition list_fields :: "string list" where
  "list_fields = [''primaryMuscles'', ''secondaryMuscles'', ''instructions'']"

section \<open>\<^verbatim>\<open>fetch_github_exercises\<close>\<close>

text \<open>
  The network and the disk are the environment of the method. A response carries its
  status code and what \<^verbatim>\<open>response.json()\<close> evaluates to (the decoded body, or the
  decoding error). \<open>http_get\<close> is \<^verbatim>\<open>client.get\<close>: a transport error or a response.
  \<open>dump_json\<close> is the block writing \<^verbatim>\<open>github_exercises.json\<close>, \<open>dump_csv\<close> the one
  normalising the data and writing \<^verbatim>\<open>github_exercises.csv\<close>; each gives \<open>None\<close> or the
  error it raised.
\<close>

record response =
  status_code :: nat
  json_body :: "error + json"

record world =
  http_get :: "string \<Rightarrow> error + response"
  dump_json :: "string \<Rightarrow> json \<Rightarrow> error option"
  dump_csv :: "string \<Rightarrow> json \<Rightarrow> error option"

text \<open>What the method did to the environment, in order.\<close>

datatype event = Get string | WroteJson string | WroteCsv string

definition github_url :: string where
  "github_url =
     ''https://raw.githubusercontent.com/yuhonas/free-exercise-db/main/dist/exercises.json''"

text \<open>\<^verbatim>\<open>response.is_success\<close> and \<^verbatim>\<open>response.raise_for_status()\<close> of httpx.\<close>

definition is_success :: "nat \<Rightarrow> bool" where
  "is_success status = (200 \<le> status \<and> status \<le> 299)"

definition raise_for_status :: "response \<Rightarrow> error option" where
  "raise_for_status r =
     (if is_success (status_code r) then None else Some (HTTPStatusError (status_code r)))"

definition fetch_github_exercises :: "world \<Rightarrow> string \<Rightarrow> (error + json) \<times> event list" where
  "fetch_github_exercises w output_dir =
     (case http_get w github_url of
        Inl err \<Rightarrow> (Inl err, [Get github_url])
      | Inr response \<Rightarrow>
        (case raise_for_status response of
           Some err \<Rightarrow> (Inl err, [Get github_url])
         | None \<Rightarrow>
           (case json_body response of
              Inl err \<Rightarrow> (Inl err, [Get github_url])
            | Inr exercises \<Rightarrow>
              (case py_len exercises of
                 Inl err \<Rightarrow> (Inl err, [Get github_url])
               | Inr n \<Rightarrow>
                 (let output_path = path_join output_dir ''github_exercises.json'' in
                  case dump_json w output_path exercises of
                    Some err \<Rightarrow> (Inl err, [Get github_url])
                  | None \<Rightarrow>
                    (let csv_path = path_join output_dir ''github_exercises.csv'' in
                     case dump_csv w csv_path exercises of
                       Some err \<Rightarrow> (Inl err, [Get github_url, WroteJson output_path])
                     | None \<Rightarrow>
                         (Inr exercises,
                          [Get github_url, WroteJson output_path, WroteCsv csv_path])))))))"

section \<open>Properties of the filter\<close>

lemma filter_muscle_typed:
  "list_all muscles_typed D \<Longrightarrow>
   filter_muscle m D = Inr [r \<leftarrow> D. satisfies None None (Some m) r]"
  by (induction D)
     (auto simp: muscles_typed_def satisfies_def dict_get_def
           split: option.splits json.splits)

lemma filter_equipment_spec:
  "filter_equipment q D = [r \<leftarrow> D. satisfies (Some q) None None r]"
  by (auto simp: filter_equipment_def satisfies_def dict_get_def py_eq_str_def
           split: option.splits intro!: filter_cong)

lemma filter_level_spec:
  "filter_level q D = [r \<leftarrow> D. satisfies None (Some q) None r]"
  by (auto simp: filter_level_def satisfies_def dict_get_def py_eq_str_def
           split: option.splits intro!: filter_cong)

lemma satisfies_split:
  "satisfies e l m r \<longleftrightarrow>
   satisfies e None None r \<and> satisfies None l None r \<and> satisfies None None m r"
  by (auto simp: satisfies_def split: option.splits)

lemma list_all_filter: "list_all P D \<Longrightarrow> list_all P (filter Q D)"
  by (induction D) auto

lemma equipment_step:
  "equipment \<noteq> Some [] \<Longrightarrow>
   (if truthy equipment then filter_equipment (the equipment) D else D) =
   [r \<leftarrow> D. satisfies equipment None None r]"
  by (cases equipment) (simp_all add: filter_equipment_spec satisfies_def)

lemma level_step:
  "level \<noteq> Some [] \<Longrightarrow>
   (if truthy level then filter_level (the level) D else D) =
   [r \<leftarrow> D. satisfies None level None r]"
  by (cases level) (simp_all add: filter_level_spec satisfies_def)

lemma muscle_step:
  "muscle \<noteq> Some [] \<Longrightarrow> list_all muscles_typed D \<Longrightarrow>
   (if truthy muscle then filter_muscle (the muscle) D else Inr D) =
   Inr [r \<leftarrow> D. satisfies None None muscle r]"
  by (cases muscle) (simp_all add: filter_muscle_typed satisfies_def)

text \<open>
  C1, as amended. For every dataset whose \<^verbatim>\<open>primaryMuscles\<close> fields are sequences where
  present, and every combination of criteria each of which is either not supplied or a
  non-empty string, \<open>filter_exercises\<close> returns exactly the records satisfying all the
  supplied criteria, in dataset order: the \<^verbatim>\<open>equipment\<close> and \<^verbatim>\<open>level\<close> fields equal
  the criterion exactly (an absent field never does), the muscle is an element of
  \<^verbatim>\<open>primaryMuscles\<close> (an absent field is the empty sequence).
\<close>

theorem filter_retains_exactly:
  assumes "equipment \<noteq> Some []" "level \<noteq> Some []" "muscle \<noteq> Some []"
    and typed: "list_all muscles_typed D"
  shows "filter_exercises D equipment level muscle =
         Inr [r \<leftarrow> D. satisfies equipment level muscle r]"
proof -
  let ?D1 = "[r \<leftarrow> D. satisfies equipment None None r]"
  let ?D2 = "[r \<leftarrow> ?D1. satisfies None level None r]"
  have "list_all muscles_typed ?D2"
    using typed by (simp add: list_all_filter)
  then have "filter_exercises D equipment level muscle =
             Inr [r \<leftarrow> ?D2. satisfies None None muscle r]"
    using assms(1-3)
    by (simp add: filter_exercises_def Let_def equipment_step level_step muscle_step)
  also have "[r \<leftarrow> ?D2. satisfies None None muscle r] =
             [r \<leftarrow> D. satisfies equipment level muscle r]"
    by (subst (4) satisfies_split) (auto intro: filter_cong)
  finally show ?thesis .
qed

theorem filter_retains_exactly_witness:
  "filter_exercises
     [[(''id'', JStr ''1''), (''name'', JStr ''Bench Press''), (''equipment'', JStr ''barbell''),
       (''level'', JStr ''intermediate''), (''primaryMuscles'', JArr [JStr ''chest''])],
      [(''id'', JStr ''2''), (''name'', JStr ''Dumbbell Fly''), (''equipment'', JStr ''dumbbell''),
       (''level'', JStr ''beginner''), (''primaryMuscles'', JArr [JStr ''chest''])],
      [(''id'', JStr ''3''), (''name'', JStr ''Plank'')]]
     (Some ''dumbbell'') None (Some ''chest'') =
   Inr [[(''id'', JStr ''2''), (''name'', JStr ''Dumbbell Fly''), (''equipment'', JStr ''dumbbell''),
       (''level'', JStr ''beginner''), (''primaryMuscles'', JArr [JStr ''chest''])]]"
  using filter_retains_exactly [of "Some ''dumbbell''" None "Some ''chest''"
     "[[(''id'', JStr ''1''), (''name'', JStr ''Bench Press''), (''equipment'', JStr ''barbell''),
       (''level'', JStr ''intermediate''), (''primaryMuscles'', JArr [JStr ''chest''])],
      [(''id'', JStr ''2''), (''name'', JStr ''Dumbbell Fly''), (''equipment'', JStr ''dumbbell''),
       (''level'', JStr ''beginner''), (''primaryMuscles'', JArr [JStr ''chest''])],
      [(''id'', JStr ''3''), (''name'', JStr ''Plank'')]]"]
  by (simp add: muscles_typed_def satisfies_def)

text \<open>
  C1 as stated fails for a criterion that is supplied as the empty string: the record
  below has no \<^verbatim>\<open>equipment\<close> field, so it does not satisfy the criterion, and it is
  retained all the same.
\<close>

theorem filter_empty_criterion_counterexample:
  "filter_exercises [[(''id'', JStr ''3''), (''name'', JStr ''Plank'')]] (Some []) None None
     = Inr [[(''id'', JStr ''3''), (''name'', JStr ''Plank'')]]
   \<and> \<not> satisfies (Some []) None None [(''id'', JStr ''3''), (''name'', JStr ''Plank'')]"
  by (simp add: filter_exercises_def satisfies_def)

lemma filter_muscle_subseq:
  "filter_muscle m D = Inr R \<Longrightarrow> subseq R D"
proof (induction D arbitrary: R)
  case Nil
  then show ?case by simp
next
  case (Cons e es)
  then show ?case
    by (auto split: sum.splits if_splits)
qed

lemma filter_muscle_returns:
  "list_all muscles_typed D \<Longrightarrow> \<exists>R. filter_muscle m D = Inr R"
  by (simp add: filter_muscle_typed)

lemma pre_muscle_subseq:
  "subseq (if truthy level then filter_level (the level)
             (if truthy equipment then filter_equipment (the equipment) D else D)
           else (if truthy equipment then filter_equipment (the equipment) D else D)) D"
  by (auto simp: filter_level_def filter_equipment_def intro: subseq_order.trans[OF subseq_filter_left])

text \<open>
  C2. Whatever the criteria, a result of \<open>filter_exercises\<close> is a subsequence of the
  dataset: its records are records of the dataset, in the same relative order. The
  function is a value-to-value map with no assignment to \<^verbatim>\<open>exercises\<close>, so the dataset
  is the same before and after the call. On a dataset whose \<^verbatim>\<open>primaryMuscles\<close> fields
  are sequences the call does return a result.
\<close>

theorem filter_is_subsequence:
  "(\<forall>R. filter_exercises D equipment level muscle = Inr R \<longrightarrow>
        subseq R D \<and> set R \<subseteq> set D) \<and>
   (list_all muscles_typed D \<longrightarrow> (\<exists>R. filter_exercises D equipment level muscle = Inr R))"
proof (intro conjI allI impI)
  let ?pre = "if truthy level then filter_level (the level)
             (if truthy equipment then filter_equipment (the equipment) D else D)
           else (if truthy equipment then filter_equipment (the equipment) D else D)"
  have pre: "subseq ?pre D" by (rule pre_muscle_subseq)
  {
    fix R assume res: "filter_exercises D equipment level muscle = Inr R"
    have "subseq R ?pre"
    proof (cases "truthy muscle")
      case True
      with res have "filter_muscle (the muscle) ?pre = Inr R"
        by (simp add: filter_exercises_def Let_def)
      then show ?thesis by (rule filter_muscle_subseq)
    next
      case False
      with res have "R = ?pre"
        by (simp add: filter_exercises_def Let_def)
      then show ?thesis by simp
    qed
    from this pre show sub: "subseq R D" by (rule subseq_order.trans)
    show "set R \<subseteq> set D"
    proof
      fix x assume "x \<in> set R"
      with sub obtain y where "y \<in> set D" "x = y" by (rule list_emb_set)
      then show "x \<in> set D" by simp
    qed
  }
  assume typed: "list_all muscles_typed D"
  have "list_all muscles_typed ?pre"
    using typed by (simp add: filter_level_def filter_equipment_def list_all_filter)
  then obtain R where "filter_muscle (the muscle) ?pre = Inr R"
    using filter_muscle_returns by blast
  then show "\<exists>R. filter_exercises D equipment level muscle = Inr R"
    by (simp add: filter_exercises_def Let_def)
qed

theorem filter_is_subsequence_witness:
  "filter_exercises
     [[(''id'', JStr ''1''), (''equipment'', JStr ''barbell''), (''primaryMuscles'', JArr [JStr ''chest''])],
      [(''id'', JStr ''2''), (''equipment'', JStr ''dumbbell''), (''primaryMuscles'', JArr [JStr ''chest''])],
      [(''id'', JStr ''3''), (''equipment'', JStr [])]]
     (Some ''dumbbell'') None (Some ''chest'') =
   Inr [[(''id'', JStr ''2''), (''equipment'', JStr ''dumbbell''), (''primaryMuscles'', JArr [JStr ''chest''])]] \<and>
   subseq [[(''id'', JStr ''2''), (''equipment'', JStr ''dumbbell''), (''primaryMuscles'', JArr [JStr ''chest''])]]
     [[(''id'', JStr ''1''), (''equipment'', JStr ''barbell''), (''primaryMuscles'', JArr [JStr ''chest''])],
      [(''id'', JStr ''2''), (''equipment'', JStr ''dumbbell''), (''primaryMuscles'', JArr [JStr ''chest''])],
      [(''id'', JStr ''3''), (''equipment'', JStr [])]]"
  using filter_is_subsequence [of
     "[[(''id'', JStr ''1''), (''equipment'', JStr ''barbell''), (''primaryMuscles'', JArr [JStr ''chest''])],
      [(''id'', JStr ''2''), (''equipment'', JStr ''dumbbell''), (''primaryMuscles'', JArr [JStr ''chest''])],
      [(''id'', JStr ''3''), (''equipment'', JStr [])]]"
     "Some ''dumbbell''" None "Some ''chest''"]
  by (simp add: filter_exercises_def filter_equipment_def py_eq_str_def dict_get_def)

text \<open>
  C8. Filtering by an equipment criterion twice gives what filtering once gives.
\<close>

theorem filter_equipment_idempotent:
  "\<exists>R. filter_exercises D (Some E) None None = Inr R \<and>
       filter_exercises R (Some E) None None = Inr R"
  by (simp add: filter_exercises_def filter_equipment_def)

theorem filter_equipment_idempotent_witness:
  "filter_exercises
     [[(''id'', JStr ''1''), (''equipment'', JStr ''barbell''), (''primaryMuscles'', JArr [JStr ''chest''])],
      [(''id'', JStr ''2''), (''equipment'', JStr ''dumbbell''), (''primaryMuscles'', JArr [JStr ''chest''])],
      [(''id'', JStr ''3''), (''equipment'', JStr [])]]
     (Some ''dumbbell'') None None =
   Inr [[(''id'', JStr ''2''), (''equipment'', JStr ''dumbbell''), (''primaryMuscles'', JArr [JStr ''chest''])]] \<and>
   filter_exercises [[(''id'', JStr ''2''), (''equipment'', JStr ''dumbbell''), (''primaryMuscles'', JArr [JStr ''chest''])]]
     (Some ''dumbbell'') None None =
   Inr [[(''id'', JStr ''2''), (''equipment'', JStr ''dumbbell''), (''primaryMuscles'', JArr [JStr ''chest''])]]"
  using filter_equipment_idempotent [of
     "[[(''id'', JStr ''1''), (''equipment'', JStr ''barbell''), (''primaryMuscles'', JArr [JStr ''chest''])],
      [(''id'', JStr ''2''), (''equipment'', JStr ''dumbbell''), (''primaryMuscles'', JArr [JStr ''chest''])],
      [(''id'', JStr ''3''), (''equipment'', JStr [])]]"
     "''dumbbell''"]
  by (simp add: filter_exercises_def filter_equipment_def py_eq_str_def dict_get_def)

text \<open>
  C10. A criterion given as the empty string is treated as a criterion that was not
  given: each of the three guards is a truth test, so the call equals the call without
  that criterion, and with the empty string as the only criterion every record of the
  dataset is returned, also a record whose own field is the empty string.
\<close>

theorem filter_empty_string_ignored:
  "filter_exercises D (Some []) level muscle = filter_exercises D None level muscle \<and>
   filter_exercises D equipment (Some []) muscle = filter_exercises D equipment None muscle \<and>
   filter_exercises D equipment level (Some []) = filter_exercises D equipment level None \<and>
   filter_exercises D (Some []) None None = Inr D \<and>
   filter_exercises D None (Some []) None = Inr D \<and>
   filter_exercises D None None (Some []) = Inr D"
  by (simp add: filter_exercises_def)

theorem filter_empty_string_ignored_witness:
  "filter_exercises
     [[(''id'', JStr ''1''), (''equipment'', JStr ''barbell''), (''primaryMuscles'', JArr [JStr ''chest''])],
      [(''id'', JStr ''2''), (''equipment'', JStr ''dumbbell''), (''primaryMuscles'', JArr [JStr ''chest''])],
      [(''id'', JStr ''3''), (''equipment'', JStr [])]]
     (Some []) None None =
   Inr [[(''id'', JStr ''1''), (''equipment'', JStr ''barbell''), (''primaryMuscles'', JArr [JStr ''chest''])],
      [(''id'', JStr ''2''), (''equipment'', JStr ''dumbbell''), (''primaryMuscles'', JArr [JStr ''chest''])],
      [(''id'', JStr ''3''), (''equipment'', JStr [])]]"
  using filter_empty_string_ignored [of
     "[[(''id'', JStr ''1''), (''equipment'', JStr ''barbell''), (''primaryMuscles'', JArr [JStr ''chest''])],
      [(''id'', JStr ''2''), (''equipment'', JStr ''dumbbell''), (''primaryMuscles'', JArr [JStr ''chest''])],
      [(''id'', JStr ''3''), (''equipment'', JStr [])]]"
     None None None]
  by (simp add: filter_exercises_def)

text \<open>
  C7. With no criterion supplied, \<open>filter_exercises\<close> returns the dataset it was given,
  unchanged.
\<close>

theorem filter_no_criteria_identity:
  "filter_exercises D None None None = Inr D"
  by (simp add: filter_exercises_def)

theorem filter_no_criteria_identity_witness:
  "filter_exercises [[(''id'', JStr ''3''), (''equipment'', JStr [])]] None None None =
   Inr [[(''id'', JStr ''3''), (''equipment'', JStr [])]]"
  using filter_no_criteria_identity [of "[[(''id'', JStr ''3''), (''equipment'', JStr [])]]"]
  by simp

section \<open>Properties of the lookup\<close>

lemma py_lower_typed:
  "name_typed r \<Longrightarrow> py_lower lower (dict_get r ''name'' (JStr [])) = Inr (lower (name_of r))"
  by (auto simp: name_typed_def name_of_def dict_get_def split: option.splits json.splits)

lemma name_loop_find:
  "list_all name_typed D \<Longrightarrow>
   name_loop lower (lower q) D = Inr (find (name_matches lower q) D)"
  by (induction D) (simp_all add: py_lower_typed name_matches_def)

lemma missing_name_no_match:
  "lower [] = [] \<Longrightarrow> lower q \<noteq> [] \<Longrightarrow> map_of r ''name'' = None \<Longrightarrow>
   \<not> name_matches lower q r"
  by (simp add: name_matches_def name_of_def)

text \<open>
  C3. On a dataset whose \<^verbatim>\<open>name\<close> fields are strings where present,
  \<open>get_exercise_by_name\<close> returns, as a value and never as an error, the first record in
  dataset order whose lower-cased name contains the lower-cased query, a missing name
  being the empty string; it returns \<open>None\<close> when no record matches, so on the empty
  dataset for every query. A record without a name is never the answer to a non-empty
  query, lower-casing mapping the empty string and nothing else to the empty string.
\<close>

theorem lookup_first_match:
  assumes typed: "list_all name_typed D"
  shows "get_exercise_by_name lower D q = Inr (find (name_matches lower q) D) \<and>
         (\<forall>r. get_exercise_by_name lower D q = Inr (Some r) \<longleftrightarrow>
              (\<exists>i<length D. D ! i = r \<and> name_matches lower q r \<and>
                 (\<forall>j<i. \<not> name_matches lower q (D ! j)))) \<and>
         ((\<forall>r\<in>set D. \<not> name_matches lower q r) \<longrightarrow>
            get_exercise_by_name lower D q = Inr None) \<and>
         get_exercise_by_name lower [] q = Inr None \<and>
         ((\<forall>s. lower s = [] \<longleftrightarrow> s = []) \<and> q \<noteq> [] \<longrightarrow>
            (\<forall>r. get_exercise_by_name lower D q = Inr (Some r) \<longrightarrow>
                 map_of r ''name'' \<noteq> None))"
proof -
  have res: "get_exercise_by_name lower D q = Inr (find (name_matches lower q) D)"
    using typed by (simp add: get_exercise_by_name_def name_loop_find)
  have idx: "\<forall>r. get_exercise_by_name lower D q = Inr (Some r) \<longleftrightarrow>
              (\<exists>i<length D. D ! i = r \<and> name_matches lower q r \<and>
                 (\<forall>j<i. \<not> name_matches lower q (D ! j)))"
    unfolding res by (auto simp: find_Some_iff)
  have none: "(\<forall>r\<in>set D. \<not> name_matches lower q r) \<longrightarrow>
            get_exercise_by_name lower D q = Inr None"
    unfolding res by (auto simp: find_None_iff)
  have empty: "get_exercise_by_name lower [] q = Inr None"
    by (simp add: get_exercise_by_name_def)
  have missing: "(\<forall>s. lower s = [] \<longleftrightarrow> s = []) \<and> q \<noteq> [] \<longrightarrow>
            (\<forall>r. get_exercise_by_name lower D q = Inr (Some r) \<longrightarrow>
                 map_of r ''name'' \<noteq> None)"
  proof (intro impI allI notI, elim conjE)
    fix r
    assume low: "\<forall>s. lower s = [] \<longleftrightarrow> s = []" and q: "q \<noteq> []"
      and found: "get_exercise_by_name lower D q = Inr (Some r)"
      and absent: "map_of r ''name'' = None"
    from found idx have "name_matches lower q r" by blast
    moreover from low q have "lower [] = []" "lower q \<noteq> []" by simp_all
    ultimately show False using absent missing_name_no_match by blast
  qed
  show ?thesis by (intro conjI res idx none empty missing)
qed

theorem lookup_first_match_witness:
  "get_exercise_by_name ascii_lower
     [[(''id'', JStr ''1''), (''name'', JStr ''Bench Press'')],
      [(''id'', JStr ''2'')],
      [(''id'', JStr ''3''), (''name'', JStr ''Dumbbell Fly'')]] ''FLY'' =
   Inr (Some [(''id'', JStr ''3''), (''name'', JStr ''Dumbbell Fly'')])"
  using lookup_first_match [of
     "[[(''id'', JStr ''1''), (''name'', JStr ''Bench Press'')],
      [(''id'', JStr ''2'')],
      [(''id'', JStr ''3''), (''name'', JStr ''Dumbbell Fly'')]]" ascii_lower "''FLY''",
     THEN conjunct1]
  by (simp add: name_typed_def name_matches_def name_of_def ascii_lower_def ascii_lower_char_def
        sublist_code(3))

text \<open>
  C5, as amended. The empty string is a substring of every string, the empty one
  included: with the empty query \<open>get_exercise_by_name\<close> returns the first record of
  the dataset, whatever its name (its \<^verbatim>\<open>name\<close> field being a string or missing), and
  \<open>None\<close> on the empty dataset.
\<close>

theorem lookup_empty_query:
  assumes "lower [] = []"
  shows "get_exercise_by_name lower [] [] = Inr None \<and>
         (name_typed e \<longrightarrow> get_exercise_by_name lower (e # es) [] = Inr (Some e))"
  using assms by (simp add: get_exercise_by_name_def py_lower_typed)

theorem lookup_empty_query_witness:
  "get_exercise_by_name ascii_lower
     [[(''id'', JStr ''1'')], [(''id'', JStr ''2''), (''name'', JStr ''Plank'')]] [] =
   Inr (Some [(''id'', JStr ''1'')])"
  using lookup_empty_query [of ascii_lower "[(''id'', JStr ''1'')]"
     "[[(''id'', JStr ''2''), (''name'', JStr ''Plank'')]]"]
  by (simp add: ascii_lower_def name_typed_def)

text \<open>
  C5 as stated fails: the first record below has an empty name and is returned, while
  the first record whose name is non-empty is the second.
\<close>

theorem lookup_empty_query_counterexample:
  "get_exercise_by_name ascii_lower
     [[(''id'', JStr ''1''), (''name'', JStr [])],
      [(''id'', JStr ''2''), (''name'', JStr ''Plank'')]] [] =
   Inr (Some [(''id'', JStr ''1''), (''name'', JStr [])]) \<and>
   first_named
     [[(''id'', JStr ''1''), (''name'', JStr [])],
      [(''id'', JStr ''2''), (''name'', JStr ''Plank'')]] =
   Some [(''id'', JStr ''2''), (''name'', JStr ''Plank'')]"
  by (simp add: get_exercise_by_name_def ascii_lower_def dict_get_def first_named_def name_of_def)

section \<open>Properties of the export\<close>

lemma export_loop_map: "export_loop acc D = acc @ map simplified D"
  by (induction D arbitrary: acc) simp_all

lemma simplified_keys: "map fst (simplified ex) = fixed_fields"
  by (simp add: simplified_def fixed_fields_def)

lemma simplified_scalar:
  "k \<in> set scalar_fields \<Longrightarrow>
   map_of (simplified ex) k = Some (case map_of ex k of None \<Rightarrow> JNull | Some v \<Rightarrow> v)"
  by (auto simp: scalar_fields_def simplified_def dict_get_def)

lemma simplified_list:
  "k \<in> set list_fields \<Longrightarrow>
   map_of (simplified ex) k = Some (case map_of ex k of None \<Rightarrow> JArr [] | Some v \<Rightarrow> v)"
  by (auto simp: list_fields_def simplified_def dict_get_def)

text \<open>
  C4. Whenever \<open>export_for_gymmando\<close> returns (and it does when the file can be
  written), its result has the length of the dataset, and its i-th record has exactly the
  ten fixed fields, in the fixed order, each holding the value of that field in the i-th
  input record; an absent scalar field (\<^verbatim>\<open>id\<close>, \<^verbatim>\<open>name\<close>, \<^verbatim>\<open>equipment\<close>, \<^verbatim>\<open>level\<close>,
  \<^verbatim>\<open>category\<close>, \<^verbatim>\<open>force\<close>, \<^verbatim>\<open>mechanic\<close>) becomes null, an absent list-valued field
  (\<^verbatim>\<open>primaryMuscles\<close>, \<^verbatim>\<open>secondaryMuscles\<close>, \<^verbatim>\<open>instructions\<close>) the empty sequence.
\<close>

theorem export_projects_each_record:
  "((\<forall>path j. dump path j = None) \<longrightarrow>
      (\<exists>out. export_for_gymmando dump output_dir D output_file = Inr out)) \<and>
   (\<forall>out. export_for_gymmando dump output_dir D output_file = Inr out \<longrightarrow>
      length out = length D \<and>
      (\<forall>i<length D.
         map fst (out ! i) = fixed_fields \<and>
         (\<forall>k\<in>set scalar_fields.
            map_of (out ! i) k = Some (case map_of (D ! i) k of None \<Rightarrow> JNull | Some v \<Rightarrow> v)) \<and>
         (\<forall>k\<in>set list_fields.
            map_of (out ! i) k = Some (case map_of (D ! i) k of None \<Rightarrow> JArr [] | Some v \<Rightarrow> v))))"
proof (intro conjI impI allI)
  assume "\<forall>path j. dump path j = None"
  then show "\<exists>out. export_for_gymmando dump output_dir D output_file = Inr out"
    by (simp add: export_for_gymmando_def Let_def)
next
  fix out
  assume "export_for_gymmando dump output_dir D output_file = Inr out"
  then have out: "out = map simplified D"
    by (simp add: export_for_gymmando_def Let_def export_loop_map split: option.splits)
  show "length out = length D" by (simp add: out)
  fix i assume i: "i < length D"
  then have nth: "out ! i = simplified (D ! i)" by (simp add: out)
  show "map fst (out ! i) = fixed_fields" by (simp add: nth simplified_keys)
  show "\<forall>k\<in>set scalar_fields.
          map_of (out ! i) k = Some (case map_of (D ! i) k of None \<Rightarrow> JNull | Some v \<Rightarrow> v)"
    by (simp add: nth simplified_scalar)
  show "\<forall>k\<in>set list_fields.
          map_of (out ! i) k = Some (case map_of (D ! i) k of None \<Rightarrow> JArr [] | Some v \<Rightarrow> v)"
    by (simp add: nth simplified_list)
qed

theorem export_projects_each_record_witness:
  "export_for_gymmando (\<lambda>path j. None) ''exercise_data''
     [[(''id'', JStr ''1''), (''name'', JStr ''Bench Press''),
       (''primaryMuscles'', JArr [JStr ''chest'']), (''images'', JArr [])]]
     ''gymmando_exercises.json'' =
   Inr [[(''id'', JStr ''1''), (''name'', JStr ''Bench Press''), (''equipment'', JNull),
         (''level'', JNull), (''primaryMuscles'', JArr [JStr ''chest'']),
         (''secondaryMuscles'', JArr []), (''instructions'', JArr []), (''category'', JNull),
         (''force'', JNull), (''mechanic'', JNull)]]"
  using export_projects_each_record [of "\<lambda>path j. None" "''exercise_data''"
     "[[(''id'', JStr ''1''), (''name'', JStr ''Bench Press''),
       (''primaryMuscles'', JArr [JStr ''chest'']), (''images'', JArr [])]]"
     "''gymmando_exercises.json''"]
  by (simp add: export_for_gymmando_def simplified_def dict_get_def)

section \<open>Properties of the fetch\<close>

text \<open>
  C9. When the request is answered with a status outside 2xx, \<open>fetch_github_exercises\<close>
  raises \<open>HTTPStatusError\<close> after that single request: nothing is retried and nothing is
  written. When the status is a success, the body decodes to a JSON array and the two
  files are written, it returns that array; and whatever it returns is the decoded body
  of a response with a success status.
\<close>

theorem fetch_status_error:
  assumes "http_get w github_url = Inr response"
  shows "(\<not> is_success (status_code response) \<longrightarrow>
            fetch_github_exercises w output_dir =
              (Inl (HTTPStatusError (status_code response)), [Get github_url])) \<and>
         (is_success (status_code response) \<and> json_body response = Inr (JArr xs) \<and>
          dump_json w (path_join output_dir ''github_exercises.json'') (JArr xs) = None \<and>
          dump_csv w (path_join output_dir ''github_exercises.csv'') (JArr xs) = None \<longrightarrow>
            fst (fetch_github_exercises w output_dir) = Inr (JArr xs)) \<and>
         (\<forall>j. fst (fetch_github_exercises w output_dir) = Inr j \<longrightarrow>
            is_success (status_code response) \<and> json_body response = Inr j)"
  using assms
  by (auto simp: fetch_github_exercises_def raise_for_status_def Let_def
           split: sum.splits option.splits if_splits)

theorem fetch_status_error_witness:
  "fetch_github_exercises
     \<lparr>http_get = (\<lambda>url. Inr \<lparr>status_code = 404, json_body = Inl JSONDecodeError\<rparr>),
      dump_json = (\<lambda>path j. None), dump_csv = (\<lambda>path j. None)\<rparr> ''exercise_data'' =
   (Inl (HTTPStatusError 404), [Get github_url]) \<and>
   fst (fetch_github_exercises
     \<lparr>http_get = (\<lambda>url. Inr \<lparr>status_code = 200,
                                 json_body = Inr (JArr [JObj [(''id'', JStr ''1'')]])\<rparr>),
      dump_json = (\<lambda>path j. None), dump_csv = (\<lambda>path j. None)\<rparr> ''exercise_data'') =
   Inr (JArr [JObj [(''id'', JStr ''1'')]])"
  using
    fetch_status_error [of
     "\<lparr>http_get = (\<lambda>url. Inr \<lparr>status_code = 404, json_body = Inl JSONDecodeError\<rparr>),
      dump_json = (\<lambda>path j. None), dump_csv = (\<lambda>path j. None)\<rparr>"
     "\<lparr>status_code = 404, json_body = Inl JSONDecodeError\<rparr>" "''exercise_data''" "[]"]
    fetch_status_error [of
     "\<lparr>http_get = (\<lambda>url. Inr \<lparr>status_code = 200,
                                 json_body = Inr (JArr [JObj [(''id'', JStr ''1'')]])\<rparr>),
      dump_json = (\<lambda>path j. None), dump_csv = (\<lambda>path j. None)\<rparr>"
     "\<lparr>status_code = 200, json_body = Inr (JArr [JObj [(''id'', JStr ''1'')]])\<rparr>"
     "''exercise_data''" "[JObj [(''id'', JStr ''1'')]]"]
  by (simp add: is_success_def)

end
